theory Spec2Isabelle
  imports Complex_Main
begin

section \<open>Numbers, vectors and bounding boxes\<close>

text \<open>
  The game is written in TypeScript; every \<^verbatim>\<open>number\<close> of the source that can hold a
  fraction (health, damage, stamina, mana, coordinates, frame delta) is read here as a
  \<^typ>\<open>real\<close>, and the counters of the quest ledger as \<^typ>\<open>int\<close>. The values
  \<^verbatim>\<open>NaN\<close> and \<^verbatim>\<open>Infinity\<close> and the rounding of doubles are outside this model.
\<close>

record vec3 =
  vx :: real
  vy :: real
  vz :: real

definition vec3_of :: "real \<Rightarrow> real \<Rightarrow> real \<Rightarrow> vec3" where
  "vec3_of a b c = \<lparr>vx = a, vy = b, vz = c\<rparr>"

definition vzero :: vec3 where
  "vzero = vec3_of 0 0 0"

definition vadd :: "vec3 \<Rightarrow> vec3 \<Rightarrow> vec3" where
  "vadd u v = vec3_of (vx u + vx v) (vy u + vy v) (vz u + vz v)"

definition multiplyScalar :: "vec3 \<Rightarrow> real \<Rightarrow> vec3" where
  "multiplyScalar v s = vec3_of (vx v * s) (vy v * s) (vz v * s)"

definition addScaledVector :: "vec3 \<Rightarrow> vec3 \<Rightarrow> real \<Rightarrow> vec3" where
  "addScaledVector u v s = vec3_of (vx u + vx v * s) (vy u + vy v * s) (vz u + vz v * s)"

definition lengthSq :: "vec3 \<Rightarrow> real" where
  "lengthSq v = vx v * vx v + vy v * vy v + vz v * vz v"

definition vlength :: "vec3 \<Rightarrow> real" where
  "vlength v = sqrt (lengthSq v)"

text \<open>\<^verbatim>\<open>normalize()\<close> divides by \<^verbatim>\<open>length() || 1\<close>: the zero vector stays zero.\<close>

definition normalize :: "vec3 \<Rightarrow> vec3" where
  "normalize v =
     (let l = (if vlength v = 0 then 1 else vlength v)
      in vec3_of (vx v / l) (vy v / l) (vz v / l))"

text \<open>\<^verbatim>\<open>this.lerp(v, alpha)\<close>: \<^verbatim>\<open>this += (v - this) * alpha\<close>, componentwise.\<close>

definition lerp :: "vec3 \<Rightarrow> vec3 \<Rightarrow> real \<Rightarrow> vec3" where
  "lerp u v alpha =
     vec3_of (vx u + (vx v - vx u) * alpha)
             (vy u + (vy v - vy u) * alpha)
             (vz u + (vz v - vz u) * alpha)"

record box3 =
  bmin :: vec3
  bmax :: vec3

text \<open>
  \<^verbatim>\<open>Box3.intersectsBox\<close>: two boxes intersect unless they are separated along one
  axis; boxes that only touch do intersect.
\<close>

definition intersectsBox :: "box3 \<Rightarrow> box3 \<Rightarrow> bool" where
  "intersectsBox a b =
     (\<not> (vx (bmax b) < vx (bmin a) \<or> vx (bmin b) > vx (bmax a) \<or>
         vy (bmax b) < vy (bmin a) \<or> vy (bmin b) > vy (bmax a) \<or>
         vz (bmax b) < vz (bmin a) \<or> vz (bmin b) > vz (bmax a)))"

text \<open>
  A collision object is a mesh of the scene. Of a mesh the controller reads two things:
  whether its geometry is a \<^verbatim>\<open>PlaneGeometry\<close> (the ground, filtered out by the
  constructors) and the world bounding box that \<^verbatim>\<open>Box3.setFromObject\<close> computes.
\<close>

record mesh =
  planeGeometry :: bool
  bounds :: box3

section \<open>The player avatar (Character3D)\<close>

text \<open>
  The fields of \<^verbatim>\<open>Character3D\<close> that the stat, combat and movement code reads or
  writes. \<^verbatim>\<open>die()\<close> of the avatar only writes a console line; \<open>dieCalls\<close> counts
  these lines, that is, the invocations of \<^verbatim>\<open>die()\<close>. Meshes, camera, animation
  timers and the UI are not modelled.
\<close>

record character =
  position :: vec3
  currentVelocity :: vec3
  targetVelocity :: vec3
  previousMoveVector :: vec3
  collisionObjects :: "mesh list"
  groundY :: real
  isWalking :: bool
  maxHealth :: real
  currentHealth :: real
  stamina :: real
  maxStamina :: real
  mana :: real
  maxMana :: real
  level :: int
  experience :: real
  experienceToNextLevel :: real
  attackPower :: real
  defense :: real
  isAttacking :: bool
  attackCooldown :: real
  isBlocking :: bool
  isDodging :: bool
  dodgeCooldown :: real
  dieCalls :: nat

text \<open>The field initialisers and the constructor of \<^verbatim>\<open>Character3D\<close>.\<close>

definition newCharacter :: "mesh list \<Rightarrow> character" where
  "newCharacter objs =
     \<lparr>position = vec3_of 0 (0 + 0.1) 25,
      currentVelocity = vzero,
      targetVelocity = vzero,
      previousMoveVector = vzero,
      collisionObjects = filter (\<lambda>obj. \<not> planeGeometry obj) objs,
      groundY = 0,
      isWalking = False,
      maxHealth = 100,
      currentHealth = 100,
      stamina = 100,
      maxStamina = 100,
      mana = 50,
      maxMana = 50,
      level = 1,
      experience = 0,
      experienceToNextLevel = 100,
      attackPower = 10,
      defense = 5,
      isAttacking = False,
      attackCooldown = 0,
      isBlocking = False,
      isDodging = False,
      dodgeCooldown = 0,
      dieCalls = 0\<rparr>"

definition die :: "character \<Rightarrow> character" where
  "die c = c\<lparr>dieCalls := dieCalls c + 1\<rparr>"

definition takeDamage :: "character \<Rightarrow> real \<Rightarrow> character" where
  "takeDamage c amount =
     (let amount' = (if isBlocking c then max 1 (amount - defense c) else amount);
          c1 = c\<lparr>currentHealth := currentHealth c - amount'\<rparr>
      in if currentHealth c1 \<le> 0 then die (c1\<lparr>currentHealth := 0\<rparr>) else c1)"

definition levelUp :: "character \<Rightarrow> character" where
  "levelUp c =
     (let c1 = c\<lparr>level := level c + 1\<rparr>;
          c2 = c1\<lparr>experience := experience c1 - experienceToNextLevel c1\<rparr>;
          c3 = c2\<lparr>experienceToNextLevel :=
                     real_of_int \<lfloor>experienceToNextLevel c2 * 1.5\<rfloor>\<rparr>;
          c4 = c3\<lparr>maxHealth := maxHealth c3 + 10\<rparr>;
          c5 = c4\<lparr>currentHealth := maxHealth c4\<rparr>;
          c6 = c5\<lparr>maxStamina := maxStamina c5 + 5\<rparr>;
          c7 = c6\<lparr>stamina := maxStamina c6\<rparr>;
          c8 = c7\<lparr>maxMana := maxMana c7 + 5\<rparr>;
          c9 = c8\<lparr>mana := maxMana c8\<rparr>;
          c10 = c9\<lparr>attackPower := attackPower c9 + 2\<rparr>
      in c10\<lparr>defense := defense c10 + 1\<rparr>)"

text \<open>\<^verbatim>\<open>gainExperience\<close> tests the threshold once, with \<^verbatim>\<open>if\<close>.\<close>

definition gainExperience :: "character \<Rightarrow> real \<Rightarrow> character" where
  "gainExperience c amount =
     (let c1 = c\<lparr>experience := experience c + amount\<rparr>
      in if experience c1 \<ge> experienceToNextLevel c1 then levelUp c1 else c1)"

subsection \<open>The per-frame update of the avatar\<close>

text \<open>
  \<^verbatim>\<open>checkCollision(newPosition)\<close>: the box of the avatar has the fixed half-extent
  \<open>0.3\<close> and the fixed height \<open>2.5\<close> above \<^verbatim>\<open>groundY\<close>; it is tested against the
  bounding box of every registered collision object.
\<close>

definition characterBoundingBox :: "character \<Rightarrow> vec3 \<Rightarrow> box3" where
  "characterBoundingBox c newPosition =
     (let boxSize = 0.3
      in \<lparr>bmin = vec3_of (vx newPosition - boxSize) (groundY c) (vz newPosition - boxSize),
          bmax = vec3_of (vx newPosition + boxSize) (groundY c + 2.5)
                         (vz newPosition + boxSize)\<rparr>)"

definition checkCollision :: "character \<Rightarrow> vec3 \<Rightarrow> bool" where
  "checkCollision c newPosition =
     list_ex (\<lambda>object. intersectsBox (characterBoundingBox c newPosition) (bounds object))
             (collisionObjects c)"

text \<open>
  The candidate position of a frame: the position plus the current velocity, put back
  on the ground offset.
\<close>

definition candidatePosition :: "character \<Rightarrow> vec3" where
  "candidatePosition c = (vadd (position c) (currentVelocity c))\<lparr>vy := groundY c + 0.1\<rparr>"

text \<open>
  The block "Apply movement" of the branch with key input. On a collision the two slide
  positions are built from the candidate and from the position before any slide is
  applied. The rotation of the mesh towards the velocity, which follows an accepted
  move, is not modelled.
\<close>

definition slideX :: "character \<Rightarrow> vec3 \<Rightarrow> vec3" where
  "slideX c newPosition = vec3_of (vx newPosition) (groundY c + 0.1) (vz (position c))"

definition slideZ :: "character \<Rightarrow> vec3 \<Rightarrow> vec3" where
  "slideZ c newPosition = vec3_of (vx (position c)) (groundY c + 0.1) (vz newPosition)"

definition applyMovement :: "character \<Rightarrow> character" where
  "applyMovement c =
     (let newPosition = candidatePosition c
      in if \<not> checkCollision c newPosition
         then c\<lparr>position := newPosition, isWalking := True\<rparr>
         else
           (let sx = slideX c newPosition;
                sz = slideZ c newPosition;
                c1 = (if \<not> checkCollision c sx
                      then c\<lparr>position := (position c)\<lparr>vx := vx sx\<rparr>\<rparr> else c)
            in if \<not> checkCollision c1 sz
               then c1\<lparr>position := (position c1)\<lparr>vz := vz sz\<rparr>\<rparr> else c1))"

text \<open>
  The branch with key input, for a move vector of positive length: the vector is
  normalised and blended with the one of the previous frame, the stamina is charged,
  and the velocity is moved towards the target velocity. \<open>0.03\<close> is
  \<^verbatim>\<open>directMoveSpeed\<close>, \<open>0.1\<close> is \<^verbatim>\<open>movementLerpFactor\<close>.
\<close>

definition steer :: "character \<Rightarrow> real \<Rightarrow> vec3 \<Rightarrow> character" where
  "steer c delta moveVector =
     (let mv1 = normalize moveVector;
          mv2 = (if lengthSq (previousMoveVector c) > 0
                 then normalize (lerp mv1 (previousMoveVector c) 0.8) else mv1);
          c1 = c\<lparr>previousMoveVector := mv2\<rparr>;
          c2 = c1\<lparr>targetVelocity := multiplyScalar mv2 (0.03 * 6)\<rparr>;
          c3 = (if \<not> isDodging c2 \<and> stamina c2 > 0
                then (let st = stamina c2 - 0.03 * 5 * delta
                      in c2\<lparr>stamina := (if st < 0 then 0 else st)\<rparr>)
                else c2)
      in c3\<lparr>currentVelocity :=
              lerp (currentVelocity c3) (targetVelocity c3) (0.1 * delta * 60)\<rparr>)"

definition moveWithInput :: "character \<Rightarrow> real \<Rightarrow> vec3 \<Rightarrow> character" where
  "moveWithInput c delta moveVector = applyMovement (steer c delta moveVector)"

text \<open>
  The branch without key input: the velocity decays by the factor \<open>0.95\<close>; a blocked
  move stops the avatar, and no slide is tried.
\<close>

definition decayed :: "character \<Rightarrow> character" where
  "decayed c = c\<lparr>currentVelocity := multiplyScalar (currentVelocity c) 0.95\<rparr>"

definition moveWithoutInput :: "character \<Rightarrow> character" where
  "moveWithoutInput c =
     (let c1 =
        (if lengthSq (currentVelocity c) > 0.00001
         then
           (let c2 = decayed c;
                newPosition = candidatePosition c2
            in if \<not> checkCollision c2 newPosition
               then c2\<lparr>position := newPosition\<rparr>
               else c2\<lparr>currentVelocity := vzero\<rparr>)
         else c\<lparr>currentVelocity := vzero, isWalking := False\<rparr>)
      in c1\<lparr>previousMoveVector := vzero\<rparr>)"

record keys =
  key_w :: bool
  key_s :: bool
  key_a :: bool
  key_d :: bool

definition noKeys :: keys where
  "noKeys = \<lparr>key_w = False, key_s = False, key_a = False, key_d = False\<rparr>"

text \<open>
  \<^verbatim>\<open>update(delta)\<close>, block by block: the cooldowns, the pinning to the ground, the
  movement, and the regeneration of stamina and mana. The two camera vectors are what
  the camera returns for its world direction and for the unit x axis turned by its
  quaternion. The weapon and walking animations, the camera follow and the UI refresh
  write no field of the record.
\<close>

definition updateCooldowns :: "character \<Rightarrow> real \<Rightarrow> character" where
  "updateCooldowns c delta =
     (let c1 = (if attackCooldown c > 0
                then c\<lparr>attackCooldown := attackCooldown c - delta\<rparr> else c)
      in if dodgeCooldown c1 > 0
         then c1\<lparr>dodgeCooldown := dodgeCooldown c1 - delta\<rparr> else c1)"

definition keepOnGround :: "character \<Rightarrow> character" where
  "keepOnGround c = c\<lparr>position := (position c)\<lparr>vy := groundY c + 0.1\<rparr>\<rparr>"

definition updateMovement :: "character \<Rightarrow> real \<Rightarrow> keys \<Rightarrow> vec3 \<Rightarrow> vec3 \<Rightarrow> character" where
  "updateMovement c delta ks camDir camRight =
     (let directMoveSpeed = 0.03;
          directMoveZ = (if key_w ks then - directMoveSpeed else 0)
                        + (if key_s ks then directMoveSpeed else 0);
          directMoveX = (if key_a ks then - directMoveSpeed else 0)
                        + (if key_d ks then directMoveSpeed else 0)
      in if directMoveX \<noteq> 0 \<or> directMoveZ \<noteq> 0
         then
           (let cameraDirection = normalize (camDir\<lparr>vy := 0\<rparr>);
                cameraRight = normalize (camRight\<lparr>vy := 0\<rparr>);
                moveVector =
                  addScaledVector (addScaledVector vzero cameraDirection (- directMoveZ))
                                  cameraRight directMoveX
            in if vlength moveVector > 0 then moveWithInput c delta moveVector else c)
         else moveWithoutInput c)"

definition regenerate :: "character \<Rightarrow> real \<Rightarrow> character" where
  "regenerate c delta =
     (let c1 = (if \<not> isDodging c \<and> lengthSq (currentVelocity c) < 0.01
                then (let st = stamina c + 10 * delta
                      in c\<lparr>stamina := (if st > maxStamina c then maxStamina c else st)\<rparr>)
                else c);
          m = mana c1 + 2 * delta
      in c1\<lparr>mana := (if m > maxMana c1 then maxMana c1 else m)\<rparr>)"

definition update :: "character \<Rightarrow> real \<Rightarrow> keys \<Rightarrow> vec3 \<Rightarrow> vec3 \<Rightarrow> character" where
  "update c delta ks camDir camRight =
     regenerate
       (updateMovement (keepOnGround (updateCooldowns c delta)) delta ks camDir camRight)
       delta"


definition drifting :: "mesh list \<Rightarrow> character" where
  "drifting objs = (newCharacter objs)\<lparr>currentVelocity := vec3_of 0.2 0 0.2\<rparr>"



definition cornerBox :: mesh where
  "cornerBox = \<lparr>planeGeometry = False,
                bounds = \<lparr>bmin = vec3_of 0.35 0 25.35, bmax = vec3_of 0.6 3 25.6\<rparr>\<rparr>"

section \<open>Enemies (Enemy.ts)\<close>

record enemyType =
  type_name :: string
  type_health :: real
  type_attackPower :: real
  type_defense :: real
  type_moveSpeed :: real
  type_attackRange :: real
  type_aggroRange :: real
  type_experience :: real
  type_color :: nat
  type_scale :: real

text \<open>The entry \<^verbatim>\<open>GOBLIN\<close> of \<^verbatim>\<open>ENEMY_TYPES\<close> (TownScene.ts).\<close>

definition GOBLIN :: enemyType where
  "GOBLIN =
     \<lparr>type_name = ''Goblin'', type_health = 30, type_attackPower = 5, type_defense = 2,
      type_moveSpeed = 2, type_attackRange = 1.5, type_aggroRange = 8,
      type_experience = 20, type_color = 0x22cc22, type_scale = 0.8\<rparr>"

text \<open>
  The stat fields of \<^verbatim>\<open>Enemy\<close> and its two flags. The death animation and the
  removal from the scene that \<^verbatim>\<open>die()\<close> schedules are not modelled.
\<close>

record enemy =
  enemy_type :: enemyType
  enemy_position :: vec3
  enemy_collisionObjects :: "mesh list"
  enemy_isAggro :: bool
  enemy_isDead :: bool
  enemy_currentHealth :: real
  enemy_maxHealth :: real
  enemy_attackPower :: real
  enemy_defense :: real
  enemy_moveSpeed :: real
  enemy_attackRange :: real
  enemy_aggroRange :: real
  enemy_experienceValue :: real

definition newEnemy :: "vec3 \<Rightarrow> enemyType \<Rightarrow> mesh list \<Rightarrow> enemy" where
  "newEnemy pos ty objs =
     \<lparr>enemy_type = ty,
      enemy_position = pos,
      enemy_collisionObjects = filter (\<lambda>obj. \<not> planeGeometry obj) objs,
      enemy_isAggro = False,
      enemy_isDead = False,
      enemy_currentHealth = type_health ty,
      enemy_maxHealth = type_health ty,
      enemy_attackPower = type_attackPower ty,
      enemy_defense = type_defense ty,
      enemy_moveSpeed = type_moveSpeed ty,
      enemy_attackRange = type_attackRange ty,
      enemy_aggroRange = type_aggroRange ty,
      enemy_experienceValue = type_experience ty\<rparr>"

definition enemy_die :: "'a enemy_scheme \<Rightarrow> 'a enemy_scheme" where
  "enemy_die e = (if enemy_isDead e then e else e\<lparr>enemy_isDead := True\<rparr>)"

definition enemy_takeDamage :: "'a enemy_scheme \<Rightarrow> real \<Rightarrow> 'a enemy_scheme" where
  "enemy_takeDamage e amount =
     (if enemy_isDead e then e
      else
        let actualDamage = max 1 (amount - enemy_defense e);
            e1 = e\<lparr>enemy_currentHealth := enemy_currentHealth e - actualDamage\<rparr>
        in if enemy_currentHealth e1 \<le> 0 then enemy_die e1 else e1)"

definition enemy_isAlive :: "'a enemy_scheme \<Rightarrow> bool" where
  "enemy_isAlive e = (\<not> enemy_isDead e)"

section \<open>The boss phase machine (Boss.ts)\<close>

datatype js_error = TypeError

text \<open>
  Of a phase the machine reads the threshold and the two optional multipliers; the
  colour and the special attacks of a phase act on the meshes and on the player, not on
  the phase fields.
\<close>

record bossPhase =
  phase_name :: string
  healthThreshold :: real
  speedMultiplier :: "real option"
  damageMultiplier :: "real option"

text \<open>
  \<^verbatim>\<open>Boss extends Enemy\<close>: a boss is an enemy record with the fields that \<^verbatim>\<open>Boss\<close>
  adds. Its stat fields are those of \<^verbatim>\<open>Enemy\<close> (\<^verbatim>\<open>currentHealth\<close>,
  \<^verbatim>\<open>maxHealth\<close>, \<^verbatim>\<open>attackPower\<close>, and so on), and \<^verbatim>\<open>takeDamage\<close> is the
  inherited one. \<open>movementSpeed\<close> is a property that only the timer callback writes
  (\<^verbatim>\<open>Enemy\<close> has \<^verbatim>\<open>moveSpeed\<close>): \<open>None\<close> stands for a value that is not a number.
  \<open>phaseTimers\<close> holds the pending \<^verbatim>\<open>setTimeout\<close> callbacks of
  \<^verbatim>\<open>startPhaseTransition\<close>, oldest first, each with the phase index it captured.
  \<open>transitionsStarted\<close> counts the console lines "transitioning to phase", one for each
  transition started. The special attacks are not modelled.
\<close>

record boss = enemy +
  phases :: "bossPhase list"
  currentPhase :: nat
  phaseTransitioning :: bool
  detectionRange :: real
  movementSpeed :: "real option"
  phaseTimers :: "nat list"
  transitionsStarted :: nat

definition addPhase :: "boss \<Rightarrow> bossPhase \<Rightarrow> boss" where
  "addPhase b ph = b\<lparr>phases := phases b @ [ph]\<rparr>"

text \<open>
  The body of the \<^verbatim>\<open>Boss\<close> constructor after \<^verbatim>\<open>super(...)\<close>, on the enemy object
  that the call of \<^verbatim>\<open>super\<close> would leave; \<open>setup\<close> is the method \<^verbatim>\<open>setupBoss\<close> of
  the class being constructed, which the body calls last. The call of \<^verbatim>\<open>super\<close> itself
  is not modelled: \<^verbatim>\<open>Boss\<close> passes \<^verbatim>\<open>(name, modelPath, position, scale, health,
  attackPower, defense)\<close> to the constructor of \<^verbatim>\<open>Enemy\<close>, whose parameters are
  \<^verbatim>\<open>(position, scene, type, collisionObjects)\<close>, so that \<^verbatim>\<open>collisionObjects.filter\<close>
  is called on the scale vector and throws a \<^verbatim>\<open>TypeError\<close>.
\<close>

definition bossConstructorBody :: "enemy \<Rightarrow> (boss \<Rightarrow> boss) \<Rightarrow> boss" where
  "bossConstructorBody e setup =
     setup (enemy.extend (e\<lparr>enemy_attackRange := 5\<rparr>)
              (boss.fields [] 0 False 30 None [] 0))"

text \<open>
  \<^verbatim>\<open>this.health\<close> in \<^verbatim>\<open>checkPhaseTransition\<close>: no class declares a property
  \<^verbatim>\<open>health\<close> and no code assigns one (\<^verbatim>\<open>Enemy\<close> keeps the health in
  \<^verbatim>\<open>currentHealth\<close>, and \<^verbatim>\<open>takeDamage\<close> writes that), so reading it gives
  \<^verbatim>\<open>undefined\<close>, here \<open>None\<close>, in every state.
\<close>

definition health :: "boss \<Rightarrow> real option" where
  "health b = None"

text \<open>
  \<^verbatim>\<open>this.health / this.maxHealth <= threshold\<close>. An undefined numerator makes the
  quotient \<^verbatim>\<open>NaN\<close>, and every comparison with \<^verbatim>\<open>NaN\<close> is false. For a number
  over a zero \<^verbatim>\<open>maxHealth\<close> the quotient of the source is \<^verbatim>\<open>NaN\<close> or an infinity,
  and the comparison is true only for a negative numerator; in HOL \<open>x / 0 = 0\<close>, so
  that case is written out.
\<close>

definition healthPercentAtMost :: "boss \<Rightarrow> real \<Rightarrow> bool" where
  "healthPercentAtMost b t =
     (case health b of
        None \<Rightarrow> False
      | Some h \<Rightarrow> (if enemy_maxHealth b = 0 then h < 0 else h / enemy_maxHealth b \<le> t))"

text \<open>
  \<^verbatim>\<open>startPhaseTransition\<close> sets the lock, reads \<^verbatim>\<open>this.phases[newPhaseIndex].name\<close>
  for the console (a \<^verbatim>\<open>TypeError\<close> when there is no such phase) and schedules the
  callback.
\<close>

definition startPhaseTransition :: "boss \<Rightarrow> nat \<Rightarrow> js_error + boss" where
  "startPhaseTransition b newPhaseIndex =
     (let b1 = b\<lparr>phaseTransitioning := True\<rparr>
      in if newPhaseIndex < length (phases b1)
         then Inr (b1\<lparr>transitionsStarted := transitionsStarted b1 + 1,
                       phaseTimers := phaseTimers b1 @ [newPhaseIndex]\<rparr>)
         else Inl TypeError)"

definition checkPhaseTransition :: "boss \<Rightarrow> js_error + boss" where
  "checkPhaseTransition b =
     (if phaseTransitioning b \<or> length (phases b) = 0 then Inr b
      else
        let nextPhaseIndex = currentPhase b + 1
        in if nextPhaseIndex < length (phases b)
           then (if healthPercentAtMost b (healthThreshold (phases b ! nextPhaseIndex))
                 then startPhaseTransition b nextPhaseIndex
                 else Inr b)
           else Inr b)"

text \<open>
  A multiplier is applied when it is truthy: present and not zero. The speed is a value
  that may not be a number, and stays so when it is scaled.
\<close>

definition scaleBy :: "real option \<Rightarrow> real \<Rightarrow> real" where
  "scaleBy m x = (case m of None \<Rightarrow> x | Some k \<Rightarrow> (if k = 0 then x else x * k))"

definition scaleSpeed :: "real option \<Rightarrow> real option \<Rightarrow> real option" where
  "scaleSpeed m x = map_option (scaleBy m) x"

text \<open>
  The callback of the timer, two seconds after \<^verbatim>\<open>startPhaseTransition\<close>: the oldest
  pending timer fires. With no timer pending nothing happens.
\<close>

definition phaseTimerFires :: "boss \<Rightarrow> js_error + boss" where
  "phaseTimerFires b =
     (case phaseTimers b of
        [] \<Rightarrow> Inr b
      | newPhaseIndex # rest \<Rightarrow>
          (let b1 = b\<lparr>phaseTimers := rest, currentPhase := newPhaseIndex\<rparr>
           in if newPhaseIndex < length (phases b1)
              then
                (let newPhase = phases b1 ! newPhaseIndex;
                     b2 = b1\<lparr>movementSpeed :=
                                scaleSpeed (speedMultiplier newPhase) (movementSpeed b1)\<rparr>;
                     b3 = b2\<lparr>enemy_attackPower :=
                                scaleBy (damageMultiplier newPhase) (enemy_attackPower b2)\<rparr>
                 in Inr (b3\<lparr>phaseTransitioning := False\<rparr>))
              else Inl TypeError))"

text \<open>
  What can happen to a boss between two observations: a frame (\<^verbatim>\<open>update\<close> runs
  \<^verbatim>\<open>checkPhaseTransition\<close>), a hit (the inherited \<^verbatim>\<open>takeDamage\<close>), or the firing
  of the pending timer.
\<close>

datatype bossEvent = Frame | Hit real | TimerFires

fun bossStep :: "boss \<Rightarrow> bossEvent \<Rightarrow> js_error + boss" where
  "bossStep b Frame = checkPhaseTransition b"
| "bossStep b (Hit amount) = Inr (enemy_takeDamage b amount)"
| "bossStep b TimerFires = phaseTimerFires b"

fun bossRun :: "boss \<Rightarrow> bossEvent list \<Rightarrow> js_error + boss" where
  "bossRun b [] = Inr b"
| "bossRun b (ev # evs) =
     (case bossStep b ev of Inl err \<Rightarrow> Inl err | Inr b' \<Rightarrow> bossRun b' evs)"

text \<open>
  The three phases that \<^verbatim>\<open>NecromancerBoss.setupBoss\<close> adds, at the thresholds 1.0, 0.7
  and 0.3. The constructor of \<^verbatim>\<open>NecromancerBoss\<close> calls \<^verbatim>\<open>setupBoss\<close> once more
  after the body of the \<^verbatim>\<open>Boss\<close> constructor has called it.
\<close>

definition phase1 :: bossPhase where
  "phase1 = \<lparr>phase_name = ''Summoner'', healthThreshold = 1.0,
              speedMultiplier = None, damageMultiplier = None\<rparr>"

definition phase2 :: bossPhase where
  "phase2 = \<lparr>phase_name = ''Dark Magic'', healthThreshold = 0.7,
              speedMultiplier = None, damageMultiplier = Some 1.2\<rparr>"

definition phase3 :: bossPhase where
  "phase3 = \<lparr>phase_name = ''Unholy Power'', healthThreshold = 0.3,
              speedMultiplier = Some 1.5, damageMultiplier = Some 1.5\<rparr>"

definition setupBoss :: "boss \<Rightarrow> boss" where
  "setupBoss b = addPhase (addPhase (addPhase b phase1) phase2) phase3"

definition necromancerConstructorBody :: "enemy \<Rightarrow> boss" where
  "necromancerConstructorBody e = setupBoss (bossConstructorBody e setupBoss)"

text \<open>
  A boss with the three phases, with the health and the defense that
  \<^verbatim>\<open>NecromancerBoss\<close> asks for (2000 and 30), at full health.
\<close>

definition threePhaseBoss :: "enemy \<Rightarrow> boss" where
  "threePhaseBoss e =
     (bossConstructorBody e setupBoss)
       \<lparr>enemy_isDead := False, enemy_currentHealth := 2000, enemy_maxHealth := 2000,
        enemy_defense := 30\<rparr>"

section \<open>The quest ledger (QuestSystem.ts)\<close>

datatype questStatus = NOT_STARTED | IN_PROGRESS | COMPLETED

datatype objectiveType =
  TALK_TO_NPC | KILL_MONSTER | COLLECT_ITEM | VISIT_LOCATION | CRAFT_ITEM

record questObjective =
  obj_id :: string
  obj_type :: objectiveType
  obj_description :: string
  targetId :: string
  targetName :: string
  required :: int
  current :: int
  completed :: bool

record questRewards =
  gold :: int
  reward_exp :: int
  reward_items :: "string list option"

record quest =
  quest_id :: string
  title :: string
  description :: string
  quest_level :: int
  status :: questStatus
  objectives :: "questObjective list"
  rewards :: questRewards
  nextQuestId :: "string option"
  isVisible :: bool

definition mkObjective ::
  "string \<Rightarrow> objectiveType \<Rightarrow> string \<Rightarrow> string \<Rightarrow> string \<Rightarrow> int \<Rightarrow> questObjective" where
  "mkObjective i ty d tid tname req =
     \<lparr>obj_id = i, obj_type = ty, obj_description = d, targetId = tid, targetName = tname,
      required = req, current = 0, completed = False\<rparr>"

text \<open>A string is truthy when it is present and not empty.\<close>

definition truthy :: "string option \<Rightarrow> bool" where
  "truthy x = (case x of None \<Rightarrow> False | Some str \<Rightarrow> str \<noteq> [])"

text \<open>\<^verbatim>\<open>Array.prototype.findIndex\<close>, with \<open>None\<close> for \<open>-1\<close>.\<close>

fun findIndex :: "('a \<Rightarrow> bool) \<Rightarrow> 'a list \<Rightarrow> nat option" where
  "findIndex P [] = None"
| "findIndex P (x # xs) =
     (if P x then Some 0 else map_option Suc (findIndex P xs))"

subsection \<open>The store \<^verbatim>\<open>useQuestStore\<close>\<close>

record questStore =
  quests :: "string \<rightharpoonup> quest"
  activeQuestIds :: "string list"
  completedQuestIds :: "string list"
  showQuestLog :: bool

definition goblin_slayer :: quest where
  "goblin_slayer =
     \<lparr>quest_id = ''goblin_slayer'', title = ''Goblin Menace'',
      description = ''Goblins have been raiding the farms around Lumbridge.'',
      quest_level = 1, status = NOT_STARTED,
      objectives =
        [mkObjective ''kill_goblins'' KILL_MONSTER ''Defeat goblins'' ''goblin'' ''Goblin'' 5,
         mkObjective ''collect_goblin_mail'' COLLECT_ITEM ''Collect goblin mail''
           ''goblin_mail'' ''Goblin Mail'' 1],
      rewards = \<lparr>gold = 50, reward_exp = 100, reward_items = Some [''bronze_sword'']\<rparr>,
      nextQuestId = Some ''cook_assistant'', isVisible = True\<rparr>"

definition cook_assistant :: quest where
  "cook_assistant =
     \<lparr>quest_id = ''cook_assistant'', title = ''Cook's Assistant'',
      description = ''The cook at Lumbridge Castle needs ingredients.'',
      quest_level = 2, status = NOT_STARTED,
      objectives =
        [mkObjective ''talk_to_cook'' TALK_TO_NPC ''Speak with the castle cook''
           ''lumbridge_cook'' ''Cook'' 1,
         mkObjective ''collect_egg'' COLLECT_ITEM ''Find an egg from the chicken pen''
           ''egg'' ''Egg'' 1,
         mkObjective ''collect_milk'' COLLECT_ITEM ''Get milk from the dairy cow''
           ''milk'' ''Bucket of Milk'' 1,
         mkObjective ''collect_flour'' COLLECT_ITEM ''Mill some wheat into flour''
           ''flour'' ''Flour'' 1],
      rewards = \<lparr>gold = 100, reward_exp = 200, reward_items = Some [''cake_slice'']\<rparr>,
      nextQuestId = Some ''undead_threat'', isVisible = False\<rparr>"

definition undead_threat :: quest where
  "undead_threat =
     \<lparr>quest_id = ''undead_threat'', title = ''The Undead Threat'',
      description = ''Strange reports of undead creatures emerging from the swamp.'',
      quest_level = 5, status = NOT_STARTED,
      objectives =
        [mkObjective ''investigate_swamp'' VISIT_LOCATION ''Investigate the swamp at night''
           ''lumbridge_swamp'' ''Lumbridge Swamp'' 1,
         mkObjective ''kill_skeletons'' KILL_MONSTER ''Defeat skeleton warriors''
           ''skeleton_warrior'' ''Skeleton Warrior'' 3,
         mkObjective ''defeat_necromancer'' KILL_MONSTER ''Defeat the necromancer boss''
           ''necromancer_boss'' ''Necromancer'' 1],
      rewards = \<lparr>gold = 500, reward_exp = 1000,
                 reward_items = Some [''amulet_of_protection'', ''steel_longsword'']\<rparr>,
      nextQuestId = None, isVisible = False\<rparr>"

definition initialQuests :: "string \<rightharpoonup> quest" where
  "initialQuests =
     [''goblin_slayer'' \<mapsto> goblin_slayer,
      ''cook_assistant'' \<mapsto> cook_assistant,
      ''undead_threat'' \<mapsto> undead_threat]"

text \<open>The store after \<^verbatim>\<open>initializeQuests()\<close>.\<close>

definition initializeQuests :: questStore where
  "initializeQuests =
     \<lparr>quests = initialQuests, activeQuestIds = [], completedQuestIds = [],
      showQuestLog = False\<rparr>"

definition startQuest :: "questStore \<Rightarrow> string \<Rightarrow> bool \<times> questStore" where
  "startQuest s questId =
     (case quests s questId of
        None \<Rightarrow> (False, s)
      | Some q \<Rightarrow>
          if status q \<noteq> NOT_STARTED then (False, s)
          else (True, s\<lparr>quests := (quests s)(questId \<mapsto> q\<lparr>status := IN_PROGRESS\<rparr>),
                         activeQuestIds := activeQuestIds s @ [questId]\<rparr>))"

text \<open>
  \<^verbatim>\<open>completeQuest\<close> of the store returns nothing. Its guard lets a quest through
  unless it is missing or already \<^verbatim>\<open>COMPLETED\<close>.
\<close>

definition completeQuest :: "questStore \<Rightarrow> string \<Rightarrow> questStore" where
  "completeQuest s questId =
     (case quests s questId of
        None \<Rightarrow> s
      | Some q \<Rightarrow>
          if status q = COMPLETED then s
          else
            (let updatedQuests = (quests s)(questId \<mapsto> q\<lparr>status := COMPLETED\<rparr>);
                 updatedQuests' =
                   (case nextQuestId q of
                      None \<Rightarrow> updatedQuests
                    | Some n \<Rightarrow>
                        (if n \<noteq> [] then
                           (case updatedQuests n of
                              None \<Rightarrow> updatedQuests
                            | Some nq \<Rightarrow> updatedQuests(n \<mapsto> nq\<lparr>isVisible := True\<rparr>))
                         else updatedQuests))
             in s\<lparr>quests := updatedQuests',
                  activeQuestIds := filter (\<lambda>i. i \<noteq> questId) (activeQuestIds s),
                  completedQuestIds := completedQuestIds s @ [questId]\<rparr>))"

text \<open>
  \<^verbatim>\<open>updateObjective\<close> of the store: it writes the new objective and the new status of
  the quest, and then calls \<^verbatim>\<open>completeQuest\<close> on the store it has just written.
\<close>

definition updateObjective :: "questStore \<Rightarrow> string \<Rightarrow> string \<Rightarrow> int \<Rightarrow> questStore" where
  "updateObjective s questId objectiveId progress =
     (case quests s questId of
        None \<Rightarrow> s
      | Some q \<Rightarrow>
          if status q \<noteq> IN_PROGRESS then s
          else
            (case findIndex (\<lambda>obj. obj_id obj = objectiveId) (objectives q) of
               None \<Rightarrow> s
             | Some objectiveIndex \<Rightarrow>
                 (let objective = objectives q ! objectiveIndex;
                      newCurrent = min (current objective + progress) (required objective);
                      isCompleted = (newCurrent \<ge> required objective);
                      updatedObjectives =
                        (objectives q)[objectiveIndex :=
                           objective\<lparr>current := newCurrent, completed := isCompleted\<rparr>];
                      allCompleted = list_all completed updatedObjectives;
                      updatedQuest =
                        q\<lparr>objectives := updatedObjectives,
                          status := (if allCompleted then COMPLETED else IN_PROGRESS)\<rparr>;
                      s1 = s\<lparr>quests := (quests s)(questId \<mapsto> updatedQuest)\<rparr>
                  in if allCompleted then completeQuest s1 questId else s1)))"

subsection \<open>The class \<^verbatim>\<open>QuestSystem\<close> with the status enum\<close>

text \<open>
  \<^verbatim>\<open>activeQuests\<close> of the class holds the quest objects of the map themselves;
  here it holds their keys, and a quest is read through the map.
\<close>

record questSystem =
  qs_quests :: "string \<rightharpoonup> quest"
  qs_activeQuests :: "string list"
  qs_completedQuests :: "string list"

definition quest_town_defense :: quest where
  "quest_town_defense =
     \<lparr>quest_id = ''quest_town_defense'', title = ''Town Defense'',
      description = ''Defeat goblins attacking the town from the nearby forest.'',
      quest_level = 1, status = NOT_STARTED,
      objectives =
        [mkObjective ''kill_goblins'' KILL_MONSTER ''Defeat 5 goblins'' ''goblin'' ''Goblin'' 5],
      rewards = \<lparr>gold = 50, reward_exp = 100, reward_items = None\<rparr>,
      nextQuestId = Some ''cook_assistant'', isVisible = True\<rparr>"

definition quest_delivery :: quest where
  "quest_delivery =
     \<lparr>quest_id = ''quest_delivery'', title = ''Special Delivery'',
      description = ''Deliver a package from the shopkeeper to the blacksmith.'',
      quest_level = 2, status = NOT_STARTED,
      objectives =
        [mkObjective ''collect_package'' COLLECT_ITEM
           ''Collect the package from the shopkeeper'' ''package'' ''Package'' 1,
         mkObjective ''deliver_package'' VISIT_LOCATION
           ''Deliver the package to the blacksmith'' ''blacksmith'' ''Blacksmith'' 1],
      rewards = \<lparr>gold = 25, reward_exp = 50, reward_items = None\<rparr>,
      nextQuestId = Some ''undead_threat'', isVisible = False\<rparr>"

definition quest_tutorial :: quest where
  "quest_tutorial =
     \<lparr>quest_id = ''quest_tutorial'', title = ''Welcome to Lumbridge'',
      description = ''Learn the basics of combat by training with the combat instructor.'',
      quest_level = 1, status = NOT_STARTED,
      objectives =
        [mkObjective ''defeat_dummies'' KILL_MONSTER ''Defeat 3 training dummies''
           ''dummy'' ''Training Dummy'' 3],
      rewards = \<lparr>gold = 0, reward_exp = 30, reward_items = Some [''Basic Sword'']\<rparr>,
      nextQuestId = Some ''goblin_slayer'', isVisible = True\<rparr>"

text \<open>The constructor of the class.\<close>

definition newQuestSystem :: questSystem where
  "newQuestSystem =
     \<lparr>qs_quests = [''quest_town_defense'' \<mapsto> quest_town_defense,
                   ''quest_delivery'' \<mapsto> quest_delivery,
                   ''quest_tutorial'' \<mapsto> quest_tutorial],
      qs_activeQuests = [], qs_completedQuests = []\<rparr>"

definition acceptQuest :: "questSystem \<Rightarrow> string \<Rightarrow> bool \<times> questSystem" where
  "acceptQuest s questId =
     (case qs_quests s questId of
        None \<Rightarrow> (False, s)
      | Some q \<Rightarrow>
          if status q \<noteq> NOT_STARTED then (False, s)
          else (True, s\<lparr>qs_quests := (qs_quests s)(questId \<mapsto> q\<lparr>status := IN_PROGRESS\<rparr>),
                         qs_activeQuests := qs_activeQuests s @ [questId]\<rparr>))"

definition qs_completeQuest :: "questSystem \<Rightarrow> string \<Rightarrow> bool \<times> questSystem" where
  "qs_completeQuest s questId =
     (case qs_quests s questId of
        None \<Rightarrow> (False, s)
      | Some q \<Rightarrow>
          if status q \<noteq> IN_PROGRESS then (False, s)
          else
            (let qm = (qs_quests s)(questId \<mapsto> q\<lparr>status := COMPLETED\<rparr>)
             in (True,
                 s\<lparr>qs_quests := qm,
                   qs_activeQuests :=
                     filter (\<lambda>k. case qm k of None \<Rightarrow> True | Some aq \<Rightarrow> quest_id aq \<noteq> questId)
                            (qs_activeQuests s)\<rparr>)))"

text \<open>
  \<^verbatim>\<open>updateObjectiveProgress\<close> of the class adds the amount to the first objective
  with the given id, in place. Both counters of an objective are always defined in
  this record, so the branch for a missing counter does not arise.
\<close>

definition updateObjectiveProgress ::
  "questSystem \<Rightarrow> string \<Rightarrow> string \<Rightarrow> int \<Rightarrow> bool \<times> questSystem" where
  "updateObjectiveProgress s questId objectiveId amount =
     (case qs_quests s questId of
        None \<Rightarrow> (False, s)
      | Some q \<Rightarrow>
          if status q \<noteq> IN_PROGRESS then (False, s)
          else
            (case findIndex (\<lambda>obj. obj_id obj = objectiveId) (objectives q) of
               None \<Rightarrow> (False, s)
             | Some i \<Rightarrow>
                 (let objective = objectives q ! i;
                      newCurrent = current objective + amount;
                      objective' = objective\<lparr>current := newCurrent,
                                             completed := (newCurrent \<ge> required objective)\<rparr>;
                      q' = q\<lparr>objectives := (objectives q)[i := objective']\<rparr>;
                      s1 = s\<lparr>qs_quests := (qs_quests s)(questId \<mapsto> q')\<rparr>;
                      allCompleted = list_all completed (objectives q')
                  in if allCompleted then (True, snd (qs_completeQuest s1 questId))
                     else (True, s1))))"


text \<open>The two event handlers of the class that pass an amount on.\<close>

definition onEnemyKilled :: "questSystem \<Rightarrow> questSystem" where
  "onEnemyKilled s = snd (updateObjectiveProgress s ''quest_town_defense'' ''kill_goblins'' 1)"

definition onItemCollected :: "questSystem \<Rightarrow> string \<Rightarrow> int \<Rightarrow> questSystem" where
  "onItemCollected s itemName quantity =
     snd (updateObjectiveProgress s ''quest_delivery'' ''collect_package'' quantity)"

text \<open>
  Two runs for the properties below. In the store: the quest \<^verbatim>\<open>goblin_slayer\<close> is
  started and both of its objectives are brought to their required counts. In the
  class: the quest \<^verbatim>\<open>quest_delivery\<close> is accepted and three packages are collected
  at once.
\<close>

definition goblinSlayerStarted :: questStore where
  "goblinSlayerStarted = snd (startQuest initializeQuests ''goblin_slayer'')"

definition goblinSlayerDone :: questStore where
  "goblinSlayerDone =
     updateObjective
       (updateObjective goblinSlayerStarted ''goblin_slayer'' ''kill_goblins'' 5)
       ''goblin_slayer'' ''collect_goblin_mail'' 1"

definition deliveryAccepted :: questSystem where
  "deliveryAccepted = snd (acceptQuest newQuestSystem ''quest_delivery'')"

definition threePackages :: questSystem where
  "threePackages = onItemCollected deliveryAccepted ''Package'' 3"

section \<open>The cutscene player (CutsceneSystem.ts)\<close>

text \<open>
  The callbacks of a cutscene (\<^verbatim>\<open>action\<close> of an option, \<^verbatim>\<open>onComplete\<close>) are closures
  of the caller. A callback is modelled by its name, and the store records the
  callbacks it has invoked, in order.
\<close>

type_synonym callback = string

datatype cutsceneType =
  INTRO | BOSS_INTRO | QUEST_START | QUEST_COMPLETE | DIALOG | AREA_TRANSITION

record dialogueOption =
  opt_text :: string
  opt_nextId :: "string option"
  opt_action :: "callback option"

record dialogueNode =
  node_id :: string
  node_character :: string
  node_text :: string
  portrait :: "string option"
  options :: "dialogueOption list option"
  node_nextId :: "string option"

record cutscene =
  cutscene_id :: string
  cutscene_type :: cutsceneType
  dialogues :: "dialogueNode list option"
  duration :: "real option"
  skippable :: bool
  onComplete :: "callback option"

text \<open>
  \<open>stopTimers\<close> counts the pending timers that \<^verbatim>\<open>playCutscene\<close> sets for a timed
  cutscene without dialogue.
\<close>

record cutsceneStore =
  cutscenes :: "string \<rightharpoonup> cutscene"
  activeCutsceneId :: "string option"
  isPlaying :: bool
  currentDialogueId :: "string option"
  invoked :: "callback list"
  stopTimers :: nat

definition emptyCutsceneStore :: cutsceneStore where
  "emptyCutsceneStore =
     \<lparr>cutscenes = Map.empty, activeCutsceneId = None, isPlaying = False,
      currentDialogueId = None, invoked = [], stopTimers = 0\<rparr>"

definition registerCutscene :: "cutsceneStore \<Rightarrow> cutscene \<Rightarrow> cutsceneStore" where
  "registerCutscene s cs = s\<lparr>cutscenes := (cutscenes s)(cutscene_id cs \<mapsto> cs)\<rparr>"

definition hasDialogues :: "cutscene \<Rightarrow> bool" where
  "hasDialogues cs = (case dialogues cs of None \<Rightarrow> False | Some ds \<Rightarrow> length ds > 0)"

definition playCutscene :: "cutsceneStore \<Rightarrow> string \<Rightarrow> callback option \<Rightarrow> cutsceneStore" where
  "playCutscene s cutsceneId onCompleteArg =
     (case cutscenes s cutsceneId of
        None \<Rightarrow> s
      | Some cs \<Rightarrow>
          (let updatedCutscene =
                 cs\<lparr>onComplete := (case onCompleteArg of
                                       None \<Rightarrow> onComplete cs
                                     | Some cb \<Rightarrow> Some cb)\<rparr>;
               s1 = s\<lparr>activeCutsceneId := Some cutsceneId,
                      isPlaying := True,
                      currentDialogueId :=
                        (case dialogues cs of
                           None \<Rightarrow> None
                         | Some ds \<Rightarrow> (case ds of [] \<Rightarrow> None | d # _ \<Rightarrow> Some (node_id d)))\<rparr>;
               s2 = registerCutscene s1 updatedCutscene
           in if (case duration cs of None \<Rightarrow> False | Some t \<Rightarrow> t \<noteq> 0) \<and> \<not> hasDialogues cs
              then s2\<lparr>stopTimers := stopTimers s2 + 1\<rparr> else s2))"

definition stopCutscene :: "cutsceneStore \<Rightarrow> cutsceneStore" where
  "stopCutscene s =
     (case activeCutsceneId s of
        None \<Rightarrow> s
      | Some a \<Rightarrow>
          if a = [] then s
          else
            (let s1 = s\<lparr>activeCutsceneId := None, isPlaying := False,
                        currentDialogueId := None\<rparr>
             in case cutscenes s a of
                  None \<Rightarrow> s1
                | Some cs \<Rightarrow>
                    (case onComplete cs of
                       None \<Rightarrow> s1
                     | Some cb \<Rightarrow> s1\<lparr>invoked := invoked s1 @ [cb]\<rparr>)))"

definition skipCutscene :: "cutsceneStore \<Rightarrow> cutsceneStore" where
  "skipCutscene s =
     (case activeCutsceneId s of
        None \<Rightarrow> s
      | Some a \<Rightarrow>
          if a = [] then s
          else
            (case cutscenes s a of
               None \<Rightarrow> s
             | Some cs \<Rightarrow> if \<not> skippable cs then s else stopCutscene s))"

text \<open>
  The node that \<^verbatim>\<open>nextDialogue\<close> and \<^verbatim>\<open>selectDialogueOption\<close> work on: the first
  node of the active cutscene with the current id, when all of these exist.
\<close>

definition getCurrentDialogue :: "cutsceneStore \<Rightarrow> dialogueNode option" where
  "getCurrentDialogue s =
     (case activeCutsceneId s of
        None \<Rightarrow> None
      | Some a \<Rightarrow>
          if a = [] \<or> \<not> truthy (currentDialogueId s) then None
          else
            (case cutscenes s a of
               None \<Rightarrow> None
             | Some cs \<Rightarrow>
                 (case dialogues cs of
                    None \<Rightarrow> None
                  | Some ds \<Rightarrow> find (\<lambda>d. Some (node_id d) = currentDialogueId s) ds)))"

definition nextDialogue :: "cutsceneStore \<Rightarrow> cutsceneStore" where
  "nextDialogue s =
     (case getCurrentDialogue s of
        None \<Rightarrow> s
      | Some currentDialogue \<Rightarrow>
          if (case options currentDialogue of None \<Rightarrow> False | Some os \<Rightarrow> length os > 0)
          then s
          else if truthy (node_nextId currentDialogue)
          then s\<lparr>currentDialogueId := node_nextId currentDialogue\<rparr>
          else stopCutscene s)"

text \<open>
  \<^verbatim>\<open>selectDialogueOption(optionIndex)\<close>. The guard of the source is
  \<^verbatim>\<open>optionIndex >= options.length\<close>; below zero \<^verbatim>\<open>options[optionIndex]\<close> is
  \<^verbatim>\<open>undefined\<close> and reading its \<^verbatim>\<open>action\<close> throws a \<^verbatim>\<open>TypeError\<close>. An index
  with a fraction is outside this model.
\<close>

definition selectDialogueOption :: "cutsceneStore \<Rightarrow> int \<Rightarrow> js_error + cutsceneStore" where
  "selectDialogueOption s optionIndex =
     (case getCurrentDialogue s of
        None \<Rightarrow> Inr s
      | Some currentDialogue \<Rightarrow>
          (case options currentDialogue of
             None \<Rightarrow> Inr s
           | Some os \<Rightarrow>
               if optionIndex \<ge> int (length os) then Inr s
               else if optionIndex < 0 then Inl TypeError
               else
                 (let selectedOption = os ! nat optionIndex;
                      s1 = (case opt_action selectedOption of
                              None \<Rightarrow> s
                            | Some act \<Rightarrow> s\<lparr>invoked := invoked s @ [act]\<rparr>)
                  in if truthy (opt_nextId selectedOption)
                     then Inr (s1\<lparr>currentDialogueId := opt_nextId selectedOption\<rparr>)
                     else Inr (stopCutscene s1))))"

text \<open>
  The cutscene \<^verbatim>\<open>gamePrologueCutscene\<close>, the only one the game registers. Titles,
  images, music and the spoken texts are left out.
\<close>

definition mkNode ::
  "string \<Rightarrow> string \<Rightarrow> dialogueOption list option \<Rightarrow> string option \<Rightarrow> dialogueNode" where
  "mkNode i who os nxt =
     \<lparr>node_id = i, node_character = who, node_text = [], portrait = None,
      options = os, node_nextId = nxt\<rparr>"

definition gamePrologueCutscene :: cutscene where
  "gamePrologueCutscene =
     \<lparr>cutscene_id = ''game_prologue'', cutscene_type = INTRO,
      dialogues = Some
        [mkNode ''intro1'' ''Narrator'' None (Some ''intro2''),
         mkNode ''intro2'' ''Narrator'' None (Some ''intro3''),
         mkNode ''intro3'' ''Town Guard'' None (Some ''intro4''),
         mkNode ''intro4'' ''Town Guard''
           (Some [\<lparr>opt_text = ''I'd be happy to help.'', opt_nextId = Some ''intro5_help'',
                    opt_action = None\<rparr>,
                  \<lparr>opt_text = ''I need to get settled first.'',
                    opt_nextId = Some ''intro5_later'', opt_action = None\<rparr>])
           None,
         mkNode ''intro5_help'' ''Town Guard'' None (Some ''intro6''),
         mkNode ''intro5_later'' ''Town Guard'' None (Some ''intro6''),
         mkNode ''intro6'' ''Narrator'' None None],
      duration = None, skippable = True, onComplete = Some ''prologueComplete''\<rparr>"


text \<open>
  The prologue as the game plays it, advanced three times: the player stands at the
  node \<^verbatim>\<open>intro4\<close>, which offers two choices.
\<close>

definition prologuePlaying :: cutsceneStore where
  "prologuePlaying =
     playCutscene (registerCutscene emptyCutsceneStore gamePrologueCutscene)
       ''game_prologue'' None"

definition prologueAtChoice :: cutsceneStore where
  "prologueAtChoice = nextDialogue (nextDialogue (nextDialogue prologuePlaying))"

section \<open>Properties of the combatants\<close>

lemma takeDamage_frame:
  "maxHealth (takeDamage c amount) = maxHealth c
   \<and> experience (takeDamage c amount) = experience c
   \<and> level (takeDamage c amount) = level c
   \<and> attackPower (takeDamage c amount) = attackPower c
   \<and> defense (takeDamage c amount) = defense c"
  by (simp add: takeDamage_def die_def Let_def)

lemma avatar_health_bounds:
  assumes "0 \<le> currentHealth c" and "currentHealth c \<le> maxHealth c" and "0 \<le> amount"
  shows "0 \<le> currentHealth (takeDamage c amount)
         \<and> currentHealth (takeDamage c amount) \<le> maxHealth (takeDamage c amount)"
  using assms by (auto simp add: takeDamage_def die_def Let_def max_def)




text \<open>
  Claim C1 says that one call \<^verbatim>\<open>gainExperience(250)\<close> on a fresh avatar (level 1,
  experience 0, threshold 100) ends like any split of the 250: at level 3 with
  experience 0. The code tests the threshold once for each call. One call with 250 ends
  at level 2 with experience 150 against a threshold of 150 and one set of stat
  increments, while the calls with 100 and then 150 end at level 3 with experience 0,
  threshold 225 and two sets of increments.
\<close>

theorem gainExperience_250_single_call:
  "level (gainExperience (newCharacter []) 250) = 2
   \<and> experience (gainExperience (newCharacter []) 250) = 150
   \<and> experienceToNextLevel (gainExperience (newCharacter []) 250) = 150
   \<and> maxHealth (gainExperience (newCharacter []) 250) = 110
   \<and> level (gainExperience (gainExperience (newCharacter []) 100) 150) = 3
   \<and> experience (gainExperience (gainExperience (newCharacter []) 100) 150) = 0
   \<and> experienceToNextLevel (gainExperience (gainExperience (newCharacter []) 100) 150) = 225
   \<and> maxHealth (gainExperience (gainExperience (newCharacter []) 100) 150) = 120"
  by (simp add: gainExperience_def levelUp_def newCharacter_def Let_def)

text \<open>
  Claim C5 says that the health of every combatant stays between 0 and its maximum
  under any sequence of hits. \<^verbatim>\<open>Enemy.takeDamage\<close> subtracts the damage and does not
  clamp: a goblin (health 30, defense 2) hit four times by an attack of power 10 is
  dead with health \<open>-2\<close>. The avatar's \<^verbatim>\<open>takeDamage\<close> does clamp
  (lemma \<open>avatar_health_bounds\<close>).
\<close>

theorem enemy_health_below_zero:
  "enemy_currentHealth
     (foldl enemy_takeDamage (newEnemy vzero GOBLIN []) [10, 10, 10, 10]) = - 2
   \<and> enemy_isDead (foldl enemy_takeDamage (newEnemy vzero GOBLIN []) [10, 10, 10, 10])"
  by (simp add: enemy_takeDamage_def enemy_die_def newEnemy_def GOBLIN_def Let_def)

text \<open>
  Claim C6, as stated, fails for the avatar: it has no alive flag, and
  \<^verbatim>\<open>gainExperience\<close> has no guard. An avatar brought to health 0 (one invocation of
  \<^verbatim>\<open>die()\<close>) that gains 100 experience reaches level 2 with health 110; gaining 30
  raises its experience to 30.
\<close>

theorem dead_avatar_gains_experience:
  "currentHealth (takeDamage (newCharacter []) 100) = 0
   \<and> dieCalls (takeDamage (newCharacter []) 100) = 1
   \<and> level (gainExperience (takeDamage (newCharacter []) 100) 100) = 2
   \<and> currentHealth (gainExperience (takeDamage (newCharacter []) 100) 100) = 110
   \<and> experience (gainExperience (takeDamage (newCharacter []) 100) 30) = 30"
  by (simp add: gainExperience_def levelUp_def takeDamage_def die_def newCharacter_def Let_def)

text \<open>
  Claim C6, amended. A dead enemy ignores \<^verbatim>\<open>takeDamage\<close>: no field changes. On an
  avatar whose health is 0, \<^verbatim>\<open>takeDamage\<close> (while blocking, or with an amount that
  is not negative) changes no stat: the health stays 0 and only \<^verbatim>\<open>die()\<close> is invoked
  again. \<^verbatim>\<open>gainExperience\<close> does not look at the health: it adds the amount to the
  experience, and levels up when the threshold is reached.
\<close>

theorem dead_receivers:
  "(enemy_isDead e \<longrightarrow> enemy_takeDamage e amount = e)
   \<and> (currentHealth c = 0 \<and> (isBlocking c \<or> 0 \<le> amount) \<longrightarrow>
        takeDamage c amount = c\<lparr>dieCalls := dieCalls c + 1\<rparr>)
   \<and> (experience c + amount < experienceToNextLevel c \<longrightarrow>
        gainExperience c amount = c\<lparr>experience := experience c + amount\<rparr>)
   \<and> (experience c + amount \<ge> experienceToNextLevel c \<longrightarrow>
        gainExperience c amount = levelUp (c\<lparr>experience := experience c + amount\<rparr>))"
  by (auto simp add: enemy_takeDamage_def takeDamage_def die_def gainExperience_def
        Let_def max_def)

theorem dead_receivers_witness:
  "enemy_isDead ((newEnemy vzero GOBLIN [])\<lparr>enemy_isDead := True\<rparr>)
   \<and> enemy_takeDamage ((newEnemy vzero GOBLIN [])\<lparr>enemy_isDead := True\<rparr>) 10
       = (newEnemy vzero GOBLIN [])\<lparr>enemy_isDead := True\<rparr>
   \<and> currentHealth ((newCharacter [])\<lparr>currentHealth := 0\<rparr>) = 0
   \<and> takeDamage ((newCharacter [])\<lparr>currentHealth := 0\<rparr>) 10
       = (newCharacter [])\<lparr>currentHealth := 0, dieCalls := 1\<rparr>
   \<and> gainExperience ((newCharacter [])\<lparr>currentHealth := 0\<rparr>) 10
       = (newCharacter [])\<lparr>currentHealth := 0, experience := 10\<rparr>
   \<and> gainExperience ((newCharacter [])\<lparr>currentHealth := 0\<rparr>) 100
       = levelUp ((newCharacter [])\<lparr>currentHealth := 0, experience := 100\<rparr>)"
  using dead_receivers [of "(newEnemy vzero GOBLIN [])\<lparr>enemy_isDead := True\<rparr>" 10
                           "(newCharacter [])\<lparr>currentHealth := 0\<rparr>"]
        dead_receivers [of "(newEnemy vzero GOBLIN [])\<lparr>enemy_isDead := True\<rparr>" 100
                           "(newCharacter [])\<lparr>currentHealth := 0\<rparr>"]
  by (simp add: newCharacter_def)

section \<open>Properties of the boss phase machine\<close>

lemma checkPhaseTransition_no_start: "checkPhaseTransition b = Inr b"
  by (simp add: checkPhaseTransition_def healthPercentAtMost_def health_def Let_def)

lemma enemy_takeDamage_boss_fields:
  "phases (enemy_takeDamage b amount) = phases b
   \<and> currentPhase (enemy_takeDamage b amount) = currentPhase b
   \<and> phaseTransitioning (enemy_takeDamage b amount) = phaseTransitioning b
   \<and> phaseTimers (enemy_takeDamage b amount) = phaseTimers b
   \<and> transitionsStarted (enemy_takeDamage b amount) = transitionsStarted b"
  by (simp add: enemy_takeDamage_def enemy_die_def Let_def)

lemma bossStep_no_timers:
  assumes "phaseTimers b = []"
  shows "\<exists>b'. bossStep b ev = Inr b' \<and> phaseTimers b' = []
              \<and> currentPhase b' = currentPhase b
              \<and> phaseTransitioning b' = phaseTransitioning b
              \<and> transitionsStarted b' = transitionsStarted b"
proof (cases ev)
  case Frame
  with assms show ?thesis by (simp add: checkPhaseTransition_no_start)
next
  case (Hit amount)
  with assms show ?thesis by (simp add: enemy_takeDamage_boss_fields)
next
  case TimerFires
  with assms show ?thesis by (simp add: phaseTimerFires_def)
qed

lemma bossRun_no_timers:
  "phaseTimers b = [] \<Longrightarrow>
     \<exists>b'. bossRun b evs = Inr b' \<and> phaseTimers b' = []
          \<and> currentPhase b' = currentPhase b
          \<and> phaseTransitioning b' = phaseTransitioning b
          \<and> transitionsStarted b' = transitionsStarted b"
proof (induction evs arbitrary: b)
  case Nil
  then show ?case by simp
next
  case (Cons ev evs)
  from bossStep_no_timers [OF Cons.prems, of ev] obtain b1 where
    s: "bossStep b ev = Inr b1" "phaseTimers b1 = []" "currentPhase b1 = currentPhase b"
       "phaseTransitioning b1 = phaseTransitioning b"
       "transitionsStarted b1 = transitionsStarted b"
    by blast
  from Cons.IH [OF s(2)] obtain b2 where
    r: "bossRun b1 evs = Inr b2" "phaseTimers b2 = []" "currentPhase b2 = currentPhase b1"
       "phaseTransitioning b2 = phaseTransitioning b1"
       "transitionsStarted b2 = transitionsStarted b1"
    by blast
  from s r show ?case by simp
qed

lemma threePhaseBoss_state:
  "map healthThreshold (phases (threePhaseBoss e)) = [1, 0.7, 0.3]
   \<and> currentPhase (threePhaseBoss e) = 0
   \<and> \<not> phaseTransitioning (threePhaseBoss e)
   \<and> phaseTimers (threePhaseBoss e) = []
   \<and> transitionsStarted (threePhaseBoss e) = 0
   \<and> enemy_currentHealth (threePhaseBoss e) = enemy_maxHealth (threePhaseBoss e)"
  by (simp add: threePhaseBoss_def bossConstructorBody_def setupBoss_def addPhase_def
        phase1_def phase2_def phase3_def enemy.defs boss.defs)

text \<open>
  Claim C7 says that a boss with the thresholds 1.0, 0.7 and 0.3 whose health drops from
  100 to 65 percent starts exactly one transition, to phase 1. \<^verbatim>\<open>checkPhaseTransition\<close>
  computes the ratio from \<^verbatim>\<open>this.health\<close>, a property that does not exist, where the
  health of an enemy is in \<^verbatim>\<open>currentHealth\<close>: the comparison with the threshold is
  false in every state and no transition ever starts. A boss with the three phases at
  full health 2000 and defense 30 that takes a hit of 730 stands at 1300, which is 65
  percent; after the following frames and timer events it is still in phase 0 with no
  transition started, and so it is after any sequence of events. (The phase index then
  never decreases, and no transition is started while one is running, for the plain
  reason that none starts at all.) As the constructors are written, a
  \<^verbatim>\<open>NecromancerBoss\<close> would also carry the three phases twice.
\<close>

theorem phase_transition_never_starts:
  "map healthThreshold (phases (threePhaseBoss e)) = [1, 0.7, 0.3]
   \<and> enemy_currentHealth (threePhaseBoss e) = enemy_maxHealth (threePhaseBoss e)
   \<and> bossRun (threePhaseBoss e) [Hit 730] = Inr ((threePhaseBoss e)\<lparr>enemy_currentHealth := 1300\<rparr>)
   \<and> enemy_currentHealth ((threePhaseBoss e)\<lparr>enemy_currentHealth := 1300\<rparr>)
       = 0.65 * enemy_maxHealth ((threePhaseBoss e)\<lparr>enemy_currentHealth := 1300\<rparr>)
   \<and> bossRun (threePhaseBoss e) [Hit 730, Frame, TimerFires, Frame]
       = Inr ((threePhaseBoss e)\<lparr>enemy_currentHealth := 1300\<rparr>)
   \<and> currentPhase ((threePhaseBoss e)\<lparr>enemy_currentHealth := 1300\<rparr>) = 0
   \<and> transitionsStarted ((threePhaseBoss e)\<lparr>enemy_currentHealth := 1300\<rparr>) = 0
   \<and> (\<exists>b'. bossRun (threePhaseBoss e) evs = Inr b' \<and> currentPhase b' = 0
             \<and> \<not> phaseTransitioning b' \<and> transitionsStarted b' = 0)
   \<and> checkPhaseTransition b = Inr b
   \<and> map healthThreshold (phases (necromancerConstructorBody e))
       = [1, 0.7, 0.3, 1, 0.7, 0.3]"
proof -
  note st = threePhaseBoss_state [of e]
  have hit: "enemy_takeDamage (threePhaseBoss e) 730
               = (threePhaseBoss e)\<lparr>enemy_currentHealth := 1300\<rparr>"
    by (simp add: enemy_takeDamage_def enemy_die_def threePhaseBoss_def Let_def)
  have mh: "enemy_maxHealth (threePhaseBoss e) = 2000"
    by (simp add: threePhaseBoss_def)
  have run: "bossRun (threePhaseBoss e) [Hit 730, Frame, TimerFires, Frame]
       = Inr ((threePhaseBoss e)\<lparr>enemy_currentHealth := 1300\<rparr>)"
    using st by (simp add: hit checkPhaseTransition_no_start phaseTimerFires_def)
  from st bossRun_no_timers [of "threePhaseBoss e" evs]
  have gen: "\<exists>b'. bossRun (threePhaseBoss e) evs = Inr b' \<and> currentPhase b' = 0
             \<and> \<not> phaseTransitioning b' \<and> transitionsStarted b' = 0"
    by auto
  have six: "map healthThreshold (phases (necromancerConstructorBody e))
       = [1, 0.7, 0.3, 1, 0.7, 0.3]"
    by (simp add: necromancerConstructorBody_def bossConstructorBody_def setupBoss_def
          addPhase_def phase1_def phase2_def phase3_def enemy.defs boss.defs)
  from st hit mh run gen six show ?thesis
    by (simp add: checkPhaseTransition_no_start)
qed

section \<open>Properties of the movement update\<close>

lemma checkCollision_position [simp]:
  "checkCollision (c\<lparr>position := p\<rparr>) q = checkCollision c q"
  by (simp add: checkCollision_def characterBoundingBox_def)

lemma applyMovement_mana:
  "mana (applyMovement c) = mana c \<and> maxMana (applyMovement c) = maxMana c"
  by (simp add: applyMovement_def Let_def)

lemma steer_mana:
  "mana (steer c delta mv) = mana c \<and> maxMana (steer c delta mv) = maxMana c"
  by (simp add: steer_def Let_def)

lemma moveWithoutInput_mana:
  "mana (moveWithoutInput c) = mana c \<and> maxMana (moveWithoutInput c) = maxMana c"
  by (simp add: moveWithoutInput_def decayed_def Let_def)

lemma updateMovement_mana:
  "mana (updateMovement c delta ks camDir camRight) = mana c
   \<and> maxMana (updateMovement c delta ks camDir camRight) = maxMana c"
  by (simp add: updateMovement_def moveWithInput_def applyMovement_mana steer_mana
        moveWithoutInput_mana Let_def)

lemma updateMovement_without_keys:
  "updateMovement c delta noKeys camDir camRight = moveWithoutInput c"
  by (simp add: updateMovement_def noKeys_def)

lemma updateMovement_forward:
  assumes "key_w ks" and "\<not> key_s ks" and "\<not> key_a ks" and "\<not> key_d ks"
      and "0 < lengthSq (camDir\<lparr>vy := 0\<rparr>)"
  shows "updateMovement c delta ks camDir camRight =
           applyMovement (steer c delta
             (addScaledVector vzero (normalize (camDir\<lparr>vy := 0\<rparr>)) 0.03))"
proof -
  let ?d = "normalize (camDir\<lparr>vy := 0\<rparr>)"
  let ?l = "vlength (camDir\<lparr>vy := 0\<rparr>)"
  from assms(5) have lpos: "0 < ?l" by (simp add: vlength_def)
  have "lengthSq ?d = lengthSq (camDir\<lparr>vy := 0\<rparr>) / (?l * ?l)"
    using lpos by (simp add: normalize_def lengthSq_def vec3_of_def Let_def field_simps)
  with assms(5) lpos have "0 < lengthSq ?d" by simp
  then have "0 < lengthSq (addScaledVector vzero ?d 0.03)"
    by (simp add: addScaledVector_def lengthSq_def vzero_def vec3_of_def field_simps)
  then have "0 < vlength (addScaledVector (addScaledVector vzero ?d 0.03) (normalize (camRight\<lparr>vy := 0\<rparr>)) 0)"
    by (simp add: vlength_def addScaledVector_def vec3_of_def lengthSq_def)
  moreover have "addScaledVector (addScaledVector vzero ?d 0.03) (normalize (camRight\<lparr>vy := 0\<rparr>)) 0
                 = addScaledVector vzero ?d 0.03"
    by (simp add: addScaledVector_def vec3_of_def)
  ultimately show ?thesis
    using assms(1-4) by (simp add: updateMovement_def moveWithInput_def Let_def)
qed

lemma updateCooldowns_mana:
  "mana (updateCooldowns c delta) = mana c \<and> maxMana (updateCooldowns c delta) = maxMana c"
  by (simp add: updateCooldowns_def Let_def)

text \<open>
  Claim C10. Every \<^verbatim>\<open>update\<close> adds \<open>2 * delta\<close> to the mana and caps the result at
  \<^verbatim>\<open>maxMana\<close>, whatever the keys, the movement, the dodge and block flags are; the
  maximum itself is not changed, so the mana after an update never exceeds it.
\<close>

theorem mana_regeneration:
  "mana (update c delta ks camDir camRight) = min (mana c + 2 * delta) (maxMana c)
   \<and> maxMana (update c delta ks camDir camRight) = maxMana c
   \<and> mana (update c delta ks camDir camRight) \<le> maxMana (update c delta ks camDir camRight)"
  by (simp add: update_def regenerate_def keepOnGround_def updateMovement_mana
        updateCooldowns_mana Let_def min_def)






text \<open>
  The case that the amended claim leaves open: with a small box diagonally ahead, the
  candidate collides and both slides are free; both are applied, and the avatar ends on
  the candidate.
\<close>

lemma both_slides_free_reaches_candidate:
  "checkCollision (drifting [cornerBox]) (candidatePosition (drifting [cornerBox]))
   \<and> \<not> checkCollision (drifting [cornerBox])
         (slideX (drifting [cornerBox]) (candidatePosition (drifting [cornerBox])))
   \<and> \<not> checkCollision (drifting [cornerBox])
         (slideZ (drifting [cornerBox]) (candidatePosition (drifting [cornerBox])))
   \<and> position (applyMovement (drifting [cornerBox])) = candidatePosition (drifting [cornerBox])
   \<and> isWalking (applyMovement (drifting [cornerBox])) = isWalking (drifting [cornerBox])"
  by (simp add: applyMovement_def drifting_def cornerBox_def newCharacter_def
        candidatePosition_def checkCollision_def characterBoundingBox_def intersectsBox_def
        slideX_def slideZ_def vec3_of_def vzero_def vadd_def Let_def)

section \<open>Properties of the quest ledger\<close>

lemma goblinSlayerStarted_eval:
  "goblinSlayerStarted =
     initializeQuests\<lparr>quests := initialQuests(''goblin_slayer'' \<mapsto> goblin_slayer\<lparr>status := IN_PROGRESS\<rparr>),
                       activeQuestIds := [''goblin_slayer'']\<rparr>"
  by (simp add: goblinSlayerStarted_def startQuest_def initializeQuests_def initialQuests_def
        goblin_slayer_def cook_assistant_def undead_threat_def mkObjective_def)

lemma findIndex_Some:
  "findIndex P xs = Some i \<Longrightarrow> i < length xs \<and> P (xs ! i)"
  by (induction xs arbitrary: i) (auto split: if_splits)

lemma completeQuest_when_completed:
  "quests s questId = Some q \<Longrightarrow> status q = COMPLETED \<Longrightarrow> completeQuest s questId = s"
  by (simp add: completeQuest_def)

lemma store_updateObjective_rejected:
  assumes "quests s questId = None
           \<or> (\<exists>q. quests s questId = Some q
                  \<and> (status q \<noteq> IN_PROGRESS
                      \<or> findIndex (\<lambda>obj. obj_id obj = objectiveId) (objectives q) = None))"
  shows "updateObjective s questId objectiveId progress = s"
  using assms by (auto simp add: updateObjective_def)

lemma store_updateObjective_only_this_quest:
  "activeQuestIds (updateObjective s questId objectiveId progress) = activeQuestIds s
   \<and> completedQuestIds (updateObjective s questId objectiveId progress) = completedQuestIds s
   \<and> (k \<noteq> questId \<longrightarrow>
        quests (updateObjective s questId objectiveId progress) k = quests s k)"
proof (cases "quests s questId")
  case None
  then show ?thesis by (simp add: updateObjective_def)
next
  case (Some q)
  show ?thesis
  proof (cases "status q = IN_PROGRESS
                \<and> findIndex (\<lambda>obj. obj_id obj = objectiveId) (objectives q) \<noteq> None")
    case False
    with Some have "updateObjective s questId objectiveId progress = s"
      by (intro store_updateObjective_rejected) auto
    then show ?thesis by simp
  next
    case True
    then obtain i where i: "findIndex (\<lambda>obj. obj_id obj = objectiveId) (objectives q) = Some i"
      by auto
    with Some True show ?thesis
      by (simp add: updateObjective_def Let_def completeQuest_when_completed)
  qed
qed

lemma store_updateObjective_clamped:
  assumes "quests s questId = Some q" and "status q = IN_PROGRESS"
      and "findIndex (\<lambda>obj. obj_id obj = objectiveId) (objectives q) = Some i"
  shows "\<exists>q'. quests (updateObjective s questId objectiveId progress) questId = Some q'
          \<and> length (objectives q') = length (objectives q)
          \<and> current (objectives q' ! i)
               = min (current (objectives q ! i) + progress) (required (objectives q ! i))
          \<and> required (objectives q' ! i) = required (objectives q ! i)
          \<and> current (objectives q' ! i) \<le> required (objectives q' ! i)
          \<and> completed (objectives q' ! i)
               = (required (objectives q' ! i) \<le> current (objectives q' ! i))
          \<and> (status q' = COMPLETED) = list_all completed (objectives q')"
proof -
  from findIndex_Some [OF assms(3)] have il: "i < length (objectives q)" by simp
  with assms show ?thesis
    by (simp add: updateObjective_def Let_def completeQuest_when_completed)
qed

text \<open>
  Claim C2 says that a quest whose objectives are all completed through
  \<^verbatim>\<open>updateObjective\<close> ends Completed with its successor revealed, and that
  \<^verbatim>\<open>completeQuest\<close> changes nothing unless the quest is InProgress. In the store,
  \<^verbatim>\<open>updateObjective\<close> writes the status \<^verbatim>\<open>COMPLETED\<close> itself and then calls
  \<^verbatim>\<open>completeQuest\<close>, whose guard returns at once for a completed quest. After both
  objectives of \<^verbatim>\<open>goblin_slayer\<close> are met the quest is Completed, but its successor
  \<^verbatim>\<open>cook_assistant\<close> is still hidden, the quest is still in the list of active
  quests and the list of completed quests is empty. Called directly on a quest that was
  never started, \<^verbatim>\<open>completeQuest\<close> completes it and reveals the successor.
\<close>

theorem successor_not_revealed:
  "map_option status (quests goblinSlayerDone ''goblin_slayer'') = Some COMPLETED
   \<and> map_option (map completed \<circ> objectives) (quests goblinSlayerDone ''goblin_slayer'')
       = Some [True, True]
   \<and> map_option nextQuestId (quests goblinSlayerDone ''goblin_slayer'')
       = Some (Some ''cook_assistant'')
   \<and> map_option isVisible (quests goblinSlayerDone ''cook_assistant'') = Some False
   \<and> activeQuestIds goblinSlayerDone = [''goblin_slayer'']
   \<and> completedQuestIds goblinSlayerDone = []
   \<and> map_option status (quests (completeQuest initializeQuests ''goblin_slayer'') ''goblin_slayer'')
       = Some COMPLETED
   \<and> map_option isVisible (quests (completeQuest initializeQuests ''goblin_slayer'') ''cook_assistant'')
       = Some True"
  by (simp add: goblinSlayerDone_def goblinSlayerStarted_eval updateObjective_def
        completeQuest_def initializeQuests_def initialQuests_def
        goblin_slayer_def cook_assistant_def undead_threat_def mkObjective_def Let_def)

text \<open>
  Claim C3 says that the progress of an objective is clamped at its required count.
  \<^verbatim>\<open>updateObjective\<close> of the store clamps (lemma \<open>store_updateObjective_clamped\<close>);
  \<^verbatim>\<open>updateObjectiveProgress\<close> of the class \<^verbatim>\<open>QuestSystem\<close> adds the amount as it
  is. After the delivery quest is accepted and three packages are collected at once, the
  objective \<^verbatim>\<open>collect_package\<close> stands at 3 of 1.
\<close>

theorem progress_above_required:
  "map_option (map current \<circ> objectives) (qs_quests threePackages ''quest_delivery'')
     = Some [3, 0]
   \<and> map_option (map required \<circ> objectives) (qs_quests threePackages ''quest_delivery'')
     = Some [1, 1]
   \<and> map_option status (qs_quests threePackages ''quest_delivery'') = Some IN_PROGRESS"
  by (simp add: threePackages_def deliveryAccepted_def onItemCollected_def acceptQuest_def
        updateObjectiveProgress_def qs_completeQuest_def newQuestSystem_def quest_town_defense_def
        quest_delivery_def quest_tutorial_def mkObjective_def Let_def)



section \<open>Properties of the cutscene player\<close>

lemma selectDialogueOption_out_of_range:
  assumes "getCurrentDialogue s = None
           \<or> (\<exists>d. getCurrentDialogue s = Some d
                  \<and> (options d = None
                      \<or> (\<exists>os. options d = Some os \<and> int (length os) \<le> optionIndex)))"
  shows "selectDialogueOption s optionIndex = Inr s"
  using assms by (auto simp add: selectDialogueOption_def)

lemma selectDialogueOption_negative:
  assumes "getCurrentDialogue s = Some d" and "options d = Some os" and "os \<noteq> []"
      and "optionIndex < 0"
  shows "selectDialogueOption s optionIndex = Inl TypeError"
  using assms by (simp add: selectDialogueOption_def)

lemma skipCutscene_not_skippable:
  assumes "activeCutsceneId s = Some a" and "cutscenes s a = Some cs" and "\<not> skippable cs"
  shows "skipCutscene s = s"
  using assms by (simp add: skipCutscene_def)

lemma nextDialogue_pending_choices:
  assumes "getCurrentDialogue s = Some d" and "options d = Some os" and "os \<noteq> []"
  shows "nextDialogue s = s"
  using assms by (simp add: nextDialogue_def)

lemma prologueAtChoice_node:
  "getCurrentDialogue prologueAtChoice =
     Some (mkNode ''intro4'' ''Town Guard''
        (Some [\<lparr>opt_text = ''I'd be happy to help.'', opt_nextId = Some ''intro5_help'',
                 opt_action = None\<rparr>,
               \<lparr>opt_text = ''I need to get settled first.'',
                 opt_nextId = Some ''intro5_later'', opt_action = None\<rparr>])
        None)"
  by (simp add: prologueAtChoice_def prologuePlaying_def playCutscene_def
        registerCutscene_def emptyCutsceneStore_def gamePrologueCutscene_def mkNode_def
        nextDialogue_def getCurrentDialogue_def truthy_def hasDialogues_def Let_def)

text \<open>
  Claim C9 says that \<^verbatim>\<open>selectChoice(index)\<close> on a node without an option at that
  index, \<^verbatim>\<open>skip()\<close> on a cutscene that is not skippable and \<^verbatim>\<open>advance()\<close> on a node
  with choices are no-ops and never errors. The last two hold
  (lemmas \<open>skipCutscene_not_skippable\<close>, \<open>nextDialogue_pending_choices\<close>), and so does the
  first for an index at or beyond the number of options
  (lemma \<open>selectDialogueOption_out_of_range\<close>). The guard has no lower bound: at the
  node \<^verbatim>\<open>intro4\<close> of the prologue, which has two options, the index \<open>-1\<close> throws
  a \<^verbatim>\<open>TypeError\<close>, while the index 2 and \<^verbatim>\<open>nextDialogue\<close> change nothing.
\<close>

theorem negative_choice_throws:
  "currentDialogueId prologueAtChoice = Some ''intro4''
   \<and> map_option (map_option length \<circ> options) (getCurrentDialogue prologueAtChoice)
       = Some (Some 2)
   \<and> selectDialogueOption prologueAtChoice (- 1) = Inl TypeError
   \<and> selectDialogueOption prologueAtChoice 2 = Inr prologueAtChoice
   \<and> nextDialogue prologueAtChoice = prologueAtChoice"
proof -
  have cur: "currentDialogueId prologueAtChoice = Some ''intro4''"
    by (simp add: prologueAtChoice_def prologuePlaying_def playCutscene_def
        registerCutscene_def emptyCutsceneStore_def gamePrologueCutscene_def mkNode_def
        nextDialogue_def getCurrentDialogue_def truthy_def hasDialogues_def Let_def)
  note node = prologueAtChoice_node
  have "selectDialogueOption prologueAtChoice (- 1) = Inl TypeError"
    using selectDialogueOption_negative [OF node, where optionIndex = "- 1"]
    by (simp add: mkNode_def)
  moreover have "selectDialogueOption prologueAtChoice 2 = Inr prologueAtChoice"
    by (rule selectDialogueOption_out_of_range) (simp add: node mkNode_def)
  moreover have "nextDialogue prologueAtChoice = prologueAtChoice"
    using nextDialogue_pending_choices [OF node] by (simp add: mkNode_def)
  ultimately show ?thesis using cur by (simp add: node mkNode_def)
qed

end
